theory Spec2Isabelle
  imports Complex_Main
begin

section \<open>Numbers\<close>

text \<open>
  The program computes with JavaScript numbers, which are IEEE 754 doubles. Grid
  coordinates, which the program produces with \<open>Math.round\<close> and by adding and subtracting
  small integer constants, are modelled as integers; pixel quantities (positions, sizes,
  cell width, gap) as reals. The values NaN and Infinity are outside the model: a quotient
  is modelled only where its divisor is not zero.

  The snapping functions are first given with exact arithmetic. What is proved of them in
  that form, their bounds and their values at round inputs, does not depend on the last
  digit of a quotient. The round trip through pixels does: there every arithmetic result
  is rounded by a function \<open>rnd\<close>, the rounding of the engine, of which the theorems assume
  only what round-to-nearest on doubles guarantees (\<open>rounding\<close>): every integer up to
  \<open>2^53\<close> is a double, and a result between \<open>2^-100\<close> and \<open>2^100\<close> in magnitude is rounded
  with a relative error of at most \<open>2^-53\<close>.

  \<open>Math.round\<close> rounds a double to the nearest integer, a tie towards plus infinity; it
  is exact.
\<close>

definition Math_round :: "real \<Rightarrow> int" where
  "Math_round x = \<lfloor>x + 1 / 2\<rfloor>"

definition rounding :: "(real \<Rightarrow> real) \<Rightarrow> bool" where
  "rounding rnd \<longleftrightarrow>
     (\<forall>k::int. \<bar>k\<bar> \<le> 2 ^ 53 \<longrightarrow> rnd (of_int k) = of_int k)
     \<and> (\<forall>x. 1 / 2 ^ 100 \<le> \<bar>x\<bar> \<and> \<bar>x\<bar> \<le> 2 ^ 100 \<longrightarrow> \<bar>rnd x - x\<bar> \<le> \<bar>x\<bar> / 2 ^ 53)"

section \<open>app/grid: types, constants and snapping\<close>

text \<open>\<open>GRID_COLUMNS\<close>, \<open>ROW_HEIGHT\<close> and \<open>GAP\<close> of \<open>useGridMath\<close>.\<close>

definition GRID_COLUMNS :: int where
  "GRID_COLUMNS = 10"

definition ROW_HEIGHT :: real where
  "ROW_HEIGHT = 60"

definition GAP :: real where
  "GAP = 16"

text \<open>
  The four grid coordinates that \<open>pixelToGrid\<close> returns and \<open>gridToPixel\<close> reads
  (\<open>Pick<Box, 'col' | 'row' | 'colSpan' | 'rowSpan'>\<close>), and \<open>Box\<close>, which adds the id.
\<close>

record GridRect =
  col :: int
  row :: int
  colSpan :: int
  rowSpan :: int

record Box = GridRect +
  box_id :: string

record GridMath =
  cellWidth :: real
  rowHeight :: real
  gap :: real
  gridWidth :: real

text \<open>\<open>BoxPosition\<close> of \<open>app/grid/types\<close>; its field \<open>top\<close> is \<open>top_px\<close> here.\<close>

record BoxPosition =
  left :: real
  top_px :: real
  width :: real
  height :: real

text \<open>The initial state of the \<open>useGridMath\<close> hook.\<close>

definition defaultGridMath :: GridMath where
  "defaultGridMath = \<lparr>cellWidth = 80, rowHeight = ROW_HEIGHT, gap = GAP, gridWidth = 896\<rparr>"

text \<open>\<open>pixelToGrid\<close> of \<open>app/grid/snapping.ts\<close>, statement by statement.\<close>

definition pixelToGrid :: "real \<Rightarrow> real \<Rightarrow> real \<Rightarrow> real \<Rightarrow> GridMath \<Rightarrow> GridRect" where
  "pixelToGrid x y w h gridMath =
     (let col0 = Math_round (x / (cellWidth gridMath + gap gridMath)) + 1;
          row0 = Math_round (y / (rowHeight gridMath + gap gridMath)) + 1;
          colSpan0 = max 1 (Math_round (w / (cellWidth gridMath + gap gridMath)));
          rowSpan0 = max 1 (Math_round (h / (rowHeight gridMath + gap gridMath)));
          col1 = max 1 col0;
          colSpan1 = (if col1 + colSpan0 > GRID_COLUMNS + 1
                      then GRID_COLUMNS + 1 - col1 else colSpan0);
          row1 = max 1 row0;
          colSpan2 = max 1 colSpan1;
          rowSpan1 = max 1 rowSpan0
      in \<lparr>col = col1, row = row1, colSpan = colSpan2, rowSpan = rowSpan1\<rparr>)"

text \<open>
  \<open>pixelToGrid\<close> again, with each sum and quotient rounded by \<open>rnd\<close>; with the identity
  for \<open>rnd\<close> it is \<open>pixelToGrid\<close>.
\<close>

definition pixelToGrid_rnd ::
  "(real \<Rightarrow> real) \<Rightarrow> real \<Rightarrow> real \<Rightarrow> real \<Rightarrow> real \<Rightarrow> GridMath \<Rightarrow> GridRect" where
  "pixelToGrid_rnd rnd x y w h gridMath =
     (let col0 = Math_round (rnd (x / rnd (cellWidth gridMath + gap gridMath))) + 1;
          row0 = Math_round (rnd (y / rnd (rowHeight gridMath + gap gridMath))) + 1;
          colSpan0 = max 1 (Math_round (rnd (w / rnd (cellWidth gridMath + gap gridMath))));
          rowSpan0 = max 1 (Math_round (rnd (h / rnd (rowHeight gridMath + gap gridMath))));
          col1 = max 1 col0;
          colSpan1 = (if col1 + colSpan0 > GRID_COLUMNS + 1
                      then GRID_COLUMNS + 1 - col1 else colSpan0);
          row1 = max 1 row0;
          colSpan2 = max 1 colSpan1;
          rowSpan1 = max 1 rowSpan0
      in \<lparr>col = col1, row = row1, colSpan = colSpan2, rowSpan = rowSpan1\<rparr>)"

text \<open>
  \<open>gridToPixel\<close> of \<open>app/grid/snapping.ts\<close>: each product and sum is rounded by \<open>rnd\<close>;
  \<open>box.col - 1\<close> and its like are differences of small integers.
\<close>

definition gridToPixel :: "(real \<Rightarrow> real) \<Rightarrow> 'a GridRect_scheme \<Rightarrow> GridMath \<Rightarrow> BoxPosition" where
  "gridToPixel rnd box gridMath =
     \<lparr>left = rnd (of_int (col box - 1) * rnd (cellWidth gridMath + gap gridMath)),
      top_px = rnd (of_int (row box - 1) * rnd (rowHeight gridMath + gap gridMath)),
      width = rnd (rnd (of_int (colSpan box) * cellWidth gridMath)
                   + rnd (of_int (colSpan box - 1) * gap gridMath)),
      height = rnd (rnd (of_int (rowSpan box) * rowHeight gridMath)
                    + rnd (of_int (rowSpan box - 1) * gap gridMath))\<rparr>"

text \<open>The round trip the specification speaks of: to pixels and back.\<close>

definition roundTrip :: "(real \<Rightarrow> real) \<Rightarrow> GridRect \<Rightarrow> GridMath \<Rightarrow> GridRect" where
  "roundTrip rnd r m =
     (let p = gridToPixel rnd r m
      in pixelToGrid_rnd rnd (left p) (top_px p) (width p) (height p) m)"

text \<open>The Box invariants of the data model.\<close>

definition validGridRect :: "'a GridRect_scheme \<Rightarrow> bool" where
  "validGridRect r \<longleftrightarrow>
     col r \<ge> 1 \<and> row r \<ge> 1 \<and> colSpan r \<ge> 1 \<and> rowSpan r \<ge> 1
     \<and> col r + colSpan r - 1 \<le> GRID_COLUMNS"

section \<open>app/grid/utils: the second snapping module\<close>

text \<open>
  \<open>GRID_GAP\<close> and \<open>ROW_HEIGHT\<close> of \<open>utils/gridMath\<close>; \<open>GRID_COLUMNS\<close> is 10 there as
  well. This module's row height is 80, so it has a name of its own.
\<close>

definition GRID_GAP :: real where
  "GRID_GAP = 16"

definition ROW_HEIGHT_utils :: real where
  "ROW_HEIGHT_utils = 80"

definition snapToGrid :: "real \<Rightarrow> real \<Rightarrow> real \<Rightarrow> real \<Rightarrow> real \<Rightarrow> GridRect" where
  "snapToGrid x y w h cw =
     (let col0 = max 1 (Math_round (x / (cw + GRID_GAP)) + 1);
          row0 = max 1 (Math_round (y / (ROW_HEIGHT_utils + GRID_GAP)) + 1);
          colSpan0 = max 1 (Math_round (w / (cw + GRID_GAP)));
          rowSpan0 = max 1 (Math_round (h / (ROW_HEIGHT_utils + GRID_GAP)));
          maxColSpan = GRID_COLUMNS - col0 + 1;
          colSpan1 = min colSpan0 maxColSpan
      in \<lparr>col = min col0 GRID_COLUMNS, row = row0,
          colSpan = max 1 colSpan1, rowSpan = max 1 rowSpan0\<rparr>)"

definition isWithinBounds :: "int \<Rightarrow> int \<Rightarrow> int \<Rightarrow> int \<Rightarrow> bool" where
  "isWithinBounds c r cs rs \<longleftrightarrow>
     c \<ge> 1 \<and> r \<ge> 1 \<and> c + cs - 1 \<le> GRID_COLUMNS \<and> cs > 0 \<and> rs > 0"

definition clampToGrid :: "int \<Rightarrow> int \<Rightarrow> int \<Rightarrow> int \<Rightarrow> GridRect" where
  "clampToGrid c r cs rs =
     (let col1 = max 1 c;
          row1 = max 1 r;
          colSpan1 = max 1 cs;
          rowSpan1 = max 1 rs;
          colSpan2 = (if col1 + colSpan1 - 1 > GRID_COLUMNS
                      then GRID_COLUMNS - col1 + 1 else colSpan1)
      in if col1 > GRID_COLUMNS
         then \<lparr>col = GRID_COLUMNS, row = row1, colSpan = 1, rowSpan = rowSpan1\<rparr>
         else \<lparr>col = col1, row = row1, colSpan = colSpan2, rowSpan = rowSpan1\<rparr>)"

section \<open>app/lib/gridUtils and app/components/GridSystem\<close>

definition CELL_SIZE :: real where
  "CELL_SIZE = 80"

record GridPosition =
  colStart :: int
  colEnd :: int
  rowStart :: int
  rowEnd :: int

text \<open>\<open>BoxPosition\<close> of \<open>gridUtils\<close>: \<open>{x, y, width, height}\<close>.\<close>

record AbsPosition =
  pos_x :: real
  pos_y :: real
  pos_width :: real
  pos_height :: real

definition doGridPositionsOverlap :: "GridPosition \<Rightarrow> GridPosition \<Rightarrow> bool" where
  "doGridPositionsOverlap pos1 pos2 \<longleftrightarrow>
     colStart pos1 < colEnd pos2 \<and> colEnd pos1 > colStart pos2
     \<and> rowStart pos1 < rowEnd pos2 \<and> rowEnd pos1 > rowStart pos2"

definition isValidGridPosition :: "GridPosition \<Rightarrow> bool" where
  "isValidGridPosition pos \<longleftrightarrow>
     colStart pos \<ge> 1 \<and> colStart pos \<le> GRID_COLUMNS \<and> colEnd pos > colStart pos
     \<and> colEnd pos \<le> GRID_COLUMNS + 1 \<and> rowStart pos \<ge> 1 \<and> rowEnd pos > rowStart pos"

text \<open>
  The grid position of a rectangle given by its start and its spans: in the words of the
  specification, \<open>end = start + span\<close>.
\<close>

definition positionOfSpans :: "'a GridRect_scheme \<Rightarrow> GridPosition" where
  "positionOfSpans r =
     \<lparr>colStart = col r, colEnd = col r + colSpan r,
      rowStart = row r, rowEnd = row r + rowSpan r\<rparr>"

text \<open>\<open>constrainToGrid\<close> returns \<open>{width, height}\<close>, here the pair in that order.\<close>

definition constrainToGrid :: "real \<Rightarrow> real \<Rightarrow> real \<times> real" where
  "constrainToGrid w h =
     (let minSize = CELL_SIZE;
          maxWidth = of_int GRID_COLUMNS * CELL_SIZE;
          maxHeight = 5 * CELL_SIZE
      in (max minSize (min maxWidth (of_int (Math_round (w / CELL_SIZE)) * CELL_SIZE)),
          max minSize (min maxHeight (of_int (Math_round (h / CELL_SIZE)) * CELL_SIZE))))"

text \<open>The \<open>Box\<close> of \<open>components/GridBox\<close>.\<close>

record CBox =
  cbox_id :: string
  gridPosition :: GridPosition
  absolutePosition :: "AbsPosition option"
  isSelected :: bool

text \<open>
  \<open>checkCollision\<close> of \<open>GridSystem\<close> reads the props \<open>boxes\<close> and \<open>selectedBoxIds\<close>; they are
  its first two arguments here.
\<close>

definition checkCollision :: "CBox list \<Rightarrow> string set \<Rightarrow> string \<Rightarrow> GridPosition \<Rightarrow> bool" where
  "checkCollision boxes selectedBoxIds boxId newGridPos \<longleftrightarrow>
     list_ex (\<lambda>box. cbox_id box \<noteq> boxId \<and> cbox_id box \<notin> selectedBoxIds
                    \<and> doGridPositionsOverlap (gridPosition box) newGridPos) boxes"

text \<open>
  The \<open>while\<close> loop of \<open>handleBoxUpdate\<close>, on its two variables \<open>newPos\<close> and \<open>attempts\<close>;
  it returns both as they are when the loop is left.
\<close>

function resolveLoop ::
  "CBox list \<Rightarrow> string set \<Rightarrow> string \<Rightarrow> GridPosition \<Rightarrow> nat \<Rightarrow> GridPosition \<times> nat" where
  "resolveLoop boxes selectedBoxIds boxId newPos attempts =
     (if checkCollision boxes selectedBoxIds boxId newPos \<and> attempts < 100
      then resolveLoop boxes selectedBoxIds boxId
             (newPos\<lparr>rowStart := rowStart newPos + 1, rowEnd := rowEnd newPos + 1\<rparr>)
             (attempts + 1)
      else (newPos, attempts))"
  by pat_completeness auto
termination
  by (relation "measure (\<lambda>(boxes, selectedBoxIds, boxId, newPos, attempts). 100 - attempts)") auto

declare resolveLoop.simps [simp del]

text \<open>
  \<open>handleBoxUpdate\<close> of \<open>GridSystem\<close>. Its only effect is a call of the prop \<open>onBoxUpdate\<close>;
  the result is the argument triple of that call, or \<open>None\<close> when no call is made.
\<close>

definition handleBoxUpdate ::
  "CBox list \<Rightarrow> string set \<Rightarrow> string \<Rightarrow> GridPosition \<Rightarrow> AbsPosition option
     \<Rightarrow> (string \<times> GridPosition \<times> AbsPosition option) option" where
  "handleBoxUpdate boxes selectedBoxIds boxId gridPos absPos =
     (if absPos = None \<and> checkCollision boxes selectedBoxIds boxId gridPos
      then (case resolveLoop boxes selectedBoxIds boxId gridPos 0 of
              (newPos, attempts) \<Rightarrow>
                if attempts < 100 then Some (boxId, newPos, absPos)
                else (case find (\<lambda>b. cbox_id b = boxId) boxes of
                        Some currentBox \<Rightarrow> Some (boxId, gridPosition currentBox, absPos)
                      | None \<Rightarrow> None))
      else Some (boxId, gridPos, absPos))"

text \<open>A grid position moved down by \<open>k\<close> rows: \<open>k\<close> runs of the loop body.\<close>

definition shiftRows :: "nat \<Rightarrow> GridPosition \<Rightarrow> GridPosition" where
  "shiftRows k pos = pos\<lparr>rowStart := rowStart pos + int k, rowEnd := rowEnd pos + int k\<rparr>"

section \<open>The page of the app/grid variant\<close>

text \<open>
  The state of the \<open>Home\<close> component that owns \<open>handleAddBox\<close>, \<open>handleDragStop\<close> and
  \<open>handleImport\<close>: the two \<open>useState\<close> cells and the \<open>nextId\<close> ref. The element type is a
  parameter, because \<open>handleImport\<close> stores whatever array \<open>JSON.parse\<close> returned, without
  looking at its elements.
\<close>

record 'b Page =
  boxes :: "'b list"
  selectedIds :: "string set"
  nextId :: nat

definition initialBoxes :: "Box list" where
  "initialBoxes =
     [\<lparr>col = 1, row = 1, colSpan = 2, rowSpan = 1, box_id = ''1''\<rparr>,
      \<lparr>col = 3, row = 1, colSpan = 3, rowSpan = 2, box_id = ''2''\<rparr>,
      \<lparr>col = 6, row = 1, colSpan = 2, rowSpan = 1, box_id = ''3''\<rparr>,
      \<lparr>col = 1, row = 2, colSpan = 2, rowSpan = 2, box_id = ''4''\<rparr>]"

definition initialPage :: "Box Page" where
  "initialPage = \<lparr>boxes = initialBoxes, selectedIds = {}, nextId = 5\<rparr>"

text \<open>\<open>String(n)\<close> for a counter value: its decimal digits.\<close>

fun String_nat :: "nat \<Rightarrow> string" where
  "String_nat n =
     (if n < 10 then [''0123456789'' ! n]
      else String_nat (n div 10) @ [''0123456789'' ! (n mod 10)])"

declare String_nat.simps [simp del]

text \<open>
  \<open>handleAddBox\<close>. \<open>Math.max(...xs)\<close> is called on a non-empty list only, where it is the
  fold of \<open>max\<close> over the list.
\<close>

definition handleAddBox :: "Box Page \<Rightarrow> Box Page" where
  "handleAddBox st =
     (let maxRow = (case map (\<lambda>b. row b + rowSpan b - 1) (boxes st) of
                      [] \<Rightarrow> 0
                    | r # rs \<Rightarrow> fold max rs r);
          newBox = \<lparr>col = 1, row = maxRow + 1, colSpan = 2, rowSpan = 1,
                    box_id = String_nat (nextId st)\<rparr>
      in st\<lparr>boxes := boxes st @ [newBox], nextId := nextId st + 1\<rparr>)"

text \<open>
  The maximum occupied row of a layout, in the words of the specification: the maximum
  over the boxes of \<open>row + rowSpan - 1\<close>.
\<close>

definition maxOccupiedRow :: "Box list \<Rightarrow> int" where
  "maxOccupiedRow bs = Max ((\<lambda>b. row b + rowSpan b - 1) ` set bs)"

text \<open>
  \<open>handleDragStop\<close>; \<open>gridMath\<close> is the value of the \<open>useGridMath\<close> hook. The function passed
  to \<open>map\<close> is \<open>dragBox\<close>. The boxes are those of the data model, with integer spans; a
  layout into which an import has put a box with a fractional span is outside the model.
\<close>

definition dragBox :: "GridMath \<Rightarrow> string \<Rightarrow> real \<Rightarrow> real \<Rightarrow> Box list \<Rightarrow> Box \<Rightarrow> Box" where
  "dragBox gridMath boxId x y prev box =
     (if box_id box \<noteq> boxId then box
      else (case find (\<lambda>b. box_id b = boxId) prev of
              None \<Rightarrow> box
            | Some currentBox \<Rightarrow>
                (let snapped = pixelToGrid x y
                       (of_int (colSpan box) * cellWidth gridMath
                          + (of_int (colSpan box) - 1) * gap gridMath)
                       (of_int (rowSpan box) * rowHeight gridMath
                          + (of_int (rowSpan box) - 1) * gap gridMath)
                       gridMath
                 in box\<lparr>col := col snapped, row := row snapped,
                        colSpan := colSpan snapped, rowSpan := rowSpan snapped\<rparr>)))"

definition handleDragStop :: "GridMath \<Rightarrow> string \<Rightarrow> real \<Rightarrow> real \<Rightarrow> Box Page \<Rightarrow> Box Page" where
  "handleDragStop gridMath boxId x y st =
     st\<lparr>boxes := map (dragBox gridMath boxId x y (boxes st)) (boxes st)\<rparr>"

text \<open>
  What \<open>JSON.parse\<close> returns. \<open>handleImport\<close> is given a file or none; the text of a file
  either parses to a value or makes \<open>JSON.parse\<close> throw (\<open>FileText None\<close>).
\<close>

datatype json =
    JNull
  | JBool bool
  | JNumber real
  | JString string
  | JArray "json list"
  | JObject "(string \<times> json) list"

datatype import_file = NoFile | FileText "json option"

definition json_of_Box :: "Box \<Rightarrow> json" where
  "json_of_Box b =
     JObject [(''id'', JString (box_id b)), (''col'', JNumber (of_int (col b))),
              (''row'', JNumber (of_int (row b))), (''colSpan'', JNumber (of_int (colSpan b))),
              (''rowSpan'', JNumber (of_int (rowSpan b)))]"

text \<open>
  \<open>handleImport\<close> with the \<open>onload\<close> callback run. The second component is the message of
  the \<open>alert\<close>, if one is shown.
\<close>

fun handleImport :: "import_file \<Rightarrow> json Page \<Rightarrow> json Page \<times> string option" where
  "handleImport NoFile st = (st, None)"
| "handleImport (FileText None) st = (st, Some ''Invalid JSON file'')"
| "handleImport (FileText (Some (JArray imported))) st =
     (st\<lparr>boxes := imported, selectedIds := {}\<rparr>, None)"
| "handleImport (FileText (Some v)) st = (st, None)"

text \<open>
  A payload whose top level contains a \<open>boxes\<close> array, in the words of the specification;
  of a key that occurs twice \<open>JSON.parse\<close> keeps the last value.
\<close>

definition hasBoxesArray :: "json \<Rightarrow> bool" where
  "hasBoxesArray v \<longleftrightarrow>
     (case v of
        JObject kvs \<Rightarrow> (case map_of (rev kvs) ''boxes'' of Some (JArray bs) \<Rightarrow> True | _ \<Rightarrow> False)
      | _ \<Rightarrow> False)"

section \<open>The page with the history\<close>

text \<open>
  The \<open>Home\<close> component that keeps \<open>history\<close> and \<open>historyIndex\<close>. A snapshot is a copy
  made with \<open>JSON.parse(JSON.stringify(boxes))\<close> and \<open>new Set(ids)\<close>; values are immutable
  here, so that the copy is the value itself.
\<close>

record 'b HistoryState =
  snap_boxes :: "'b list"
  snap_selectedBoxIds :: "string set"

record 'b Home =
  cur_boxes :: "'b list"
  cur_selectedBoxIds :: "string set"
  history :: "'b HistoryState list"
  historyIndex :: int

datatype js_error = TypeError

text \<open>\<open>xs[i]\<close>: \<open>undefined\<close> outside the array.\<close>

definition js_index :: "'a list \<Rightarrow> int \<Rightarrow> 'a option" where
  "js_index xs i = (if 0 \<le> i \<and> i < int (length xs) then Some (xs ! nat i) else None)"

text \<open>\<open>xs.slice(0, e)\<close>: a negative end counts from the end of the array.\<close>

definition js_slice0 :: "int \<Rightarrow> 'a list \<Rightarrow> 'a list" where
  "js_slice0 e xs = (if e < 0 then take (nat (int (length xs) + e)) xs else take (nat e) xs)"

definition saveToHistory :: "'b list \<Rightarrow> string set \<Rightarrow> 'b Home \<Rightarrow> 'b Home" where
  "saveToHistory newBoxes newSelectedIds st =
     (let newHistory = js_slice0 (historyIndex st + 1) (history st)
                       @ [\<lparr>snap_boxes = newBoxes, snap_selectedBoxIds = newSelectedIds\<rparr>]
      in st\<lparr>history := newHistory, historyIndex := int (length newHistory) - 1\<rparr>)"

text \<open>
  \<open>handleUndo\<close> and \<open>handleRedo\<close>. Reading \<open>.boxes\<close> of an entry that is not there throws
  a \<open>TypeError\<close>.
\<close>

definition handleUndo :: "'b Home \<Rightarrow> js_error + 'b Home" where
  "handleUndo st =
     (if historyIndex st > 0
      then (case js_index (history st) (historyIndex st - 1) of
              None \<Rightarrow> Inl TypeError
            | Some prevState \<Rightarrow>
                Inr (st\<lparr>cur_boxes := snap_boxes prevState,
                        cur_selectedBoxIds := snap_selectedBoxIds prevState,
                        historyIndex := historyIndex st - 1\<rparr>))
      else Inr st)"

definition handleRedo :: "'b Home \<Rightarrow> js_error + 'b Home" where
  "handleRedo st =
     (if historyIndex st < int (length (history st)) - 1
      then (case js_index (history st) (historyIndex st + 1) of
              None \<Rightarrow> Inl TypeError
            | Some nextState \<Rightarrow>
                Inr (st\<lparr>cur_boxes := snap_boxes nextState,
                        cur_selectedBoxIds := snap_selectedBoxIds nextState,
                        historyIndex := historyIndex st + 1\<rparr>))
      else Inr st)"

text \<open>An undo, and a redo of the state it leaves.\<close>

definition undoRedo :: "'b Home \<Rightarrow> js_error + 'b Home" where
  "undoRedo st = (case handleUndo st of Inl e \<Rightarrow> Inl e | Inr st' \<Rightarrow> handleRedo st')"

text \<open>\<open>n\<close> calls of \<open>handleRedo\<close>, and of \<open>handleUndo\<close>, one after the other.\<close>

fun redoTimes :: "nat \<Rightarrow> 'b Home \<Rightarrow> js_error + 'b Home" where
  "redoTimes 0 st = Inr st"
| "redoTimes (Suc n) st = (case handleRedo st of Inl e \<Rightarrow> Inl e | Inr st' \<Rightarrow> redoTimes n st')"

fun undoTimes :: "nat \<Rightarrow> 'b Home \<Rightarrow> js_error + 'b Home" where
  "undoTimes 0 st = Inr st"
| "undoTimes (Suc n) st = (case handleUndo st of Inl e \<Rightarrow> Inl e | Inr st' \<Rightarrow> undoTimes n st')"

section \<open>Example layouts\<close>

text \<open>
  The history page as it starts, and after three commits: the initial layout, its first
  two boxes, and the empty layout, which is the current one.
\<close>

definition emptyHome :: "Box Home" where
  "emptyHome = \<lparr>cur_boxes = initialBoxes, cur_selectedBoxIds = {}, history = [], historyIndex = - 1\<rparr>"

definition threeSnapshots :: "Box Home" where
  "threeSnapshots =
     saveToHistory [] {}
       (saveToHistory (take 2 initialBoxes) {}
          (saveToHistory initialBoxes {} emptyHome))
       \<lparr>cur_boxes := [], cur_selectedBoxIds := {}\<rparr>"

text \<open>The history after two commits and one undo: the cursor is on the first entry.\<close>

definition oneUndone :: "Box Home" where
  "oneUndone =
     \<lparr>cur_boxes = initialBoxes, cur_selectedBoxIds = {},
      history = [\<lparr>snap_boxes = initialBoxes, snap_selectedBoxIds = {}\<rparr>,
                 \<lparr>snap_boxes = take 2 initialBoxes, snap_selectedBoxIds = {}\<rparr>],
      historyIndex = 0\<rparr>"

text \<open>
  The measurements in a container 224 pixels wide: the cell width is 8, half the gap.
\<close>

definition narrowGridMath :: GridMath where
  "narrowGridMath = \<lparr>cellWidth = 8, rowHeight = 60, gap = 16, gridWidth = 224\<rparr>"

text \<open>
  A box that is selected and free: its stored grid position is the one that the drag of
  the free box last wrote, which \<open>handleBoxUpdate\<close> passes on unchecked because an absolute
  position came with it.
\<close>

definition draggedBox :: CBox where
  "draggedBox =
     \<lparr>cbox_id = ''a'',
      gridPosition = \<lparr>colStart = 2, colEnd = 4, rowStart = 3, rowEnd = 4\<rparr>,
      absolutePosition = Some \<lparr>pos_x = 80, pos_y = 160, pos_width = 160, pos_height = 80\<rparr>,
      isSelected = True\<rparr>"

text \<open>Twenty-one anchored boxes of two columns and five rows, one below the other.\<close>

definition stackOfBoxes :: "CBox list" where
  "stackOfBoxes =
     map (\<lambda>n. \<lparr>cbox_id = ''b'' @ String_nat n,
               gridPosition = \<lparr>colStart = 1, colEnd = 3,
                                rowStart = 5 * int n + 1, rowEnd = 5 * int n + 6\<rparr>,
               absolutePosition = None, isSelected = False\<rparr>) [0..<21]"

text \<open>One anchored box in columns 1 and 2, from row 1 to the row before \<open>e\<close>.\<close>

definition blockerBox :: "int \<Rightarrow> CBox" where
  "blockerBox e =
     \<lparr>cbox_id = ''b'',
      gridPosition = \<lparr>colStart = 1, colEnd = 3, rowStart = 1, rowEnd = e\<rparr>,
      absolutePosition = None, isSelected = False\<rparr>"

text \<open>No two boxes of a list, told apart by their ids, overlap.\<close>

definition noTwoOverlap :: "CBox list \<Rightarrow> bool" where
  "noTwoOverlap bs \<longleftrightarrow>
     list_all (\<lambda>b. list_all (\<lambda>c. cbox_id b = cbox_id c
        \<or> \<not> doGridPositionsOverlap (gridPosition b) (gridPosition c)) bs) bs"

text \<open>
  A page whose layout is the initial one and whose first box is selected, and the box of
  the specification's import scenario.
\<close>

definition jsonPage :: "json Page" where
  "jsonPage = \<lparr>boxes = map json_of_Box initialBoxes, selectedIds = {''1''}, nextId = 5\<rparr>"

definition importedBox :: json where
  "importedBox = json_of_Box \<lparr>col = 1, row = 1, colSpan = 2, rowSpan = 1, box_id = ''x''\<rparr>"

section \<open>Rounding\<close>

lemma Math_round_of_int_minus:
  assumes "0 \<le> t" "t \<le> 1 / 2"
  shows "Math_round (of_int n - t) = n"
  using assms unfolding Math_round_def by linarith

lemma Math_round_of_int: "Math_round (of_int n) = n"
  using Math_round_of_int_minus [of 0 n] by simp

text \<open>
  What \<open>rounding\<close> gives: small integers are exact, and a positive result in range is off
  by a factor between \<open>1 - 2^-53\<close> and \<open>1 + 2^-53\<close>.
\<close>

lemma rounding_int:
  assumes "rounding rnd" and "\<bar>k\<bar> \<le> 2 ^ 53"
  shows "rnd (of_int k) = of_int k"
  using assms unfolding rounding_def by blast

lemma rounding_zero: "rounding rnd \<Longrightarrow> rnd 0 = 0"
  using rounding_int [of rnd 0] by simp

lemma rounding_rel:
  assumes "rounding rnd" and "1 / 2 ^ 100 \<le> x" and "x \<le> 2 ^ 100"
  shows "(1 - 1 / 2 ^ 53) * x \<le> rnd x \<and> rnd x \<le> (1 + 1 / 2 ^ 53) * x"
proof -
  have "(0::real) < 1 / 2 ^ 100" by simp
  with assms(2) have pos: "0 < x" by linarith
  then have "1 / 2 ^ 100 \<le> \<bar>x\<bar> \<and> \<bar>x\<bar> \<le> 2 ^ 100"
    using assms(2,3) by simp
  then have "\<bar>rnd x - x\<bar> \<le> \<bar>x\<bar> / 2 ^ 53"
    using assms(1) unfolding rounding_def by blast
  then have "\<bar>rnd x - x\<bar> \<le> x / 2 ^ 53"
    using pos by simp
  then have "rnd x - x \<le> x / 2 ^ 53" and "- (rnd x - x) \<le> x / 2 ^ 53"
    by (rule abs_le_D1, rule abs_le_D2)
  then have "x - x / 2 ^ 53 \<le> rnd x" and "rnd x \<le> x + x / 2 ^ 53"
    by linarith+
  then show ?thesis by (simp add: algebra_simps)
qed

lemma rounding_rel0:
  assumes "rounding rnd" and "x = 0 \<or> 1 / 2 ^ 100 \<le> x \<and> x \<le> 2 ^ 100"
  shows "(1 - 1 / 2 ^ 53) * x \<le> rnd x \<and> rnd x \<le> (1 + 1 / 2 ^ 53) * x"
  using assms rounding_rel [of rnd x] rounding_zero [of rnd] by auto

lemma rounding_exact: "rounding (\<lambda>x. x)"
  by (simp add: rounding_def)

lemma Math_round_window:
  assumes "of_int n - 1 / 2 \<le> q" and "q < of_int n + 1 / 2"
  shows "Math_round q = n"
  using assms unfolding Math_round_def by linarith

text \<open>
  With \<open>P\<close> for \<open>n\<close> pitches, \<open>d\<close> for the pitch and \<open>Z\<close> for the rounded quotient times the
  pitch: three roundings on the way up and one on the way down leave the quotient within
  half a cell of \<open>n\<close>, when the gap is below the cell size by a millionth of it.
\<close>

lemma span_window:
  fixes P g d Z :: real
  assumes "0 < d" and "d \<le> P" and "P \<le> 1000000 * d" and "0 < g"
    and "g * (2 + 1 / 1000000) \<le> d"
    and "(1 - 1 / 2 ^ 53) ^ 3 * (P - g) \<le> (1 + 1 / 2 ^ 53) * Z"
    and "(1 - 1 / 2 ^ 53) * Z \<le> (1 + 1 / 2 ^ 53) ^ 3 * (P - g)"
  shows "P - d / 2 \<le> Z \<and> Z < P + d / 2"
  using assms by (simp add: power3_eq_cube)

text \<open>A start coordinate comes back from its pixel position.\<close>

lemma start_rounded:
  fixes s :: real
  assumes R: "rounding rnd" and n: "1 \<le> n" "n \<le> 1000000"
    and s: "1 / 1000000 \<le> s" "s \<le> 4000000"
  shows "Math_round (rnd (rnd (of_int (n - 1) * s) / s)) + 1 = n"
proof (cases "n = 1")
  case True
  then show ?thesis by (simp add: rounding_zero [OF R] Math_round_def)
next
  case False
  define k :: real where "k = of_int (n - 1)"
  have k: "1 \<le> k" "k \<le> 1000000" using n False by (simp_all add: k_def)
  have spos: "0 < s" using s(1) by linarith
  have lo1: "1 * s \<le> k * s" using k(1) spos by (intro mult_right_mono) simp_all
  have hi1: "k * s \<le> 1000000 * 4000000" using k s spos by (intro mult_mono) simp_all
  have r1: "(1 - 1 / 2 ^ 53) * (k * s) \<le> rnd (k * s)"
    "rnd (k * s) \<le> (1 + 1 / 2 ^ 53) * (k * s)"
    using rounding_rel [OF R, of "k * s"] lo1 hi1 s(1) by simp_all
  define y where "y = rnd (k * s) / s"
  have y: "(1 - 1 / 2 ^ 53) * k \<le> y" "y \<le> (1 + 1 / 2 ^ 53) * k"
    using r1 spos by (simp_all add: y_def field_simps)
  have ry: "(1 - 1 / 2 ^ 53) * y \<le> rnd y" "rnd y \<le> (1 + 1 / 2 ^ 53) * y"
    using rounding_rel [OF R, of y] y k by simp_all
  have "of_int (n - 1) - 1 / 2 \<le> rnd y" "rnd y < of_int (n - 1) + 1 / 2"
    using ry y k unfolding k_def [symmetric] by simp_all
  then have "Math_round (rnd y) = n - 1" by (rule Math_round_window)
  then show ?thesis by (simp add: y_def k_def)
qed

text \<open>A span comes back from its pixel size.\<close>

lemma span_rounded:
  fixes c g :: real
  assumes R: "rounding rnd" and n: "1 \<le> n" "n \<le> 1000000"
    and g: "1 / 1000000 \<le> g" and c: "c \<le> 1000000"
    and margin: "g * (1 + 1 / 1000000) \<le> c"
  shows "Math_round (rnd (rnd (rnd (of_int n * c) + rnd (of_int (n - 1) * g)) / rnd (c + g))) = n"
proof -
  define k :: real where "k = of_int n"
  define d where "d = c + g"
  define a where "a = k * c"
  define b where "b = (k - 1) * g"
  define P where "P = k * d"
  have k: "1 \<le> k" "k \<le> 1000000" using n by (simp_all add: k_def)
  have gpos: "0 < g" using g by linarith
  have cg: "g \<le> c" using margin gpos by (simp add: algebra_simps)
  have dpos: "0 < d" using gpos cg by (simp add: d_def)
  have ab: "a + b = P - g" by (simp add: a_def b_def P_def d_def algebra_simps)
  have P: "d \<le> P" "P \<le> 1000000 * d"
    using k dpos mult_right_mono [of 1 k d] mult_right_mono [of k 1000000 d]
    by (simp_all add: P_def)
  have a: "c \<le> a" "a \<le> 1000000 * 1000000"
    using k c cg gpos mult_right_mono [of 1 k c] mult_mono [of k 1000000 c 1000000]
    by (simp_all add: a_def)
  have b: "b = 0 \<or> g \<le> b \<and> b \<le> 1000000 * 1000000"
  proof (cases "n = 1")
    case True
    then show ?thesis by (simp add: b_def k_def)
  next
    case False
    then have k1: "1 \<le> k - 1" "k - 1 \<le> 1000000" using n by (simp_all add: k_def)
    then show ?thesis
      using c cg gpos mult_right_mono [of 1 "k - 1" g] mult_mono [of "k - 1" 1000000 g 1000000]
      by (simp add: b_def)
  qed
  have b0: "0 \<le> b" using b gpos by auto
  have ra: "(1 - 1 / 2 ^ 53) * a \<le> rnd a" "rnd a \<le> (1 + 1 / 2 ^ 53) * a"
    using rounding_rel [OF R, of a] a cg g by simp_all
  have rb: "(1 - 1 / 2 ^ 53) * b \<le> rnd b" "rnd b \<le> (1 + 1 / 2 ^ 53) * b"
    using rounding_rel0 [OF R, of b] b g by auto
  define S where "S = rnd a + rnd b"
  have S: "(1 - 1 / 2 ^ 53) * (P - g) \<le> S" "S \<le> (1 + 1 / 2 ^ 53) * (P - g)"
    using ra rb unfolding S_def ab [symmetric] by (simp_all add: algebra_simps)
  have Pg: "c \<le> P - g" "P - g \<le> 1000000 * 1000000 + 1000000 * 1000000"
    using a b b0 unfolding ab [symmetric] by auto
  have rS: "(1 - 1 / 2 ^ 53) * S \<le> rnd S" "rnd S \<le> (1 + 1 / 2 ^ 53) * S"
    using rounding_rel [OF R, of S] S Pg cg g by simp_all
  define s where "s = rnd d"
  have s: "(1 - 1 / 2 ^ 53) * d \<le> s" "s \<le> (1 + 1 / 2 ^ 53) * d"
    using rounding_rel [OF R, of d] g c cg unfolding s_def d_def by simp_all
  have spos: "0 < s" using s(1) dpos by simp
  define y where "y = rnd S / s"
  have ys: "y * s = rnd S" using spos by (simp add: y_def)
  have dc: "d \<le> 2 * c" using cg by (simp add: d_def)
  have ylo: "1 / 4 * s \<le> rnd S" using rS S Pg s dc dpos by simp
  have yhi: "rnd S \<le> 4000000 * s" using rS S P s dpos gpos by simp
  have yr: "1 / 4 \<le> y" "y \<le> 4000000"
    using ylo yhi spos by (simp_all add: y_def field_simps)
  define q where "q = rnd y"
  have q: "(1 - 1 / 2 ^ 53) * y \<le> q" "q \<le> (1 + 1 / 2 ^ 53) * y"
    using rounding_rel [OF R, of y] yr unfolding q_def by simp_all
  have qpos: "0 \<le> q" using q(1) yr by simp
  define Z where "Z = q * d"
  define Q where "Q = q * s"
  define W where "W = rnd S"
  have qs1: "(1 - 1 / 2 ^ 53) * W \<le> Q"
    using mult_right_mono [OF q(1), of s] spos by (simp add: ys mult.assoc Q_def W_def)
  have qs2: "Q \<le> (1 + 1 / 2 ^ 53) * W"
    using mult_right_mono [OF q(2), of s] spos by (simp add: ys mult.assoc Q_def W_def)
  have qs3: "Q \<le> (1 + 1 / 2 ^ 53) * Z"
    using mult_left_mono [OF s(2) qpos] by (simp add: algebra_simps Q_def Z_def)
  have qs4: "(1 - 1 / 2 ^ 53) * Z \<le> Q"
    using mult_left_mono [OF s(1) qpos] by (simp add: algebra_simps Q_def Z_def)
  have lo: "(1 - 1 / 2 ^ 53) ^ 3 * (P - g) \<le> (1 + 1 / 2 ^ 53) * Z"
    using qs1 qs3 rS(1) S(1) unfolding W_def [symmetric] by (simp add: power3_eq_cube)
  have hi: "(1 - 1 / 2 ^ 53) * Z \<le> (1 + 1 / 2 ^ 53) ^ 3 * (P - g)"
    using qs2 qs4 rS(2) S(2) unfolding W_def [symmetric] by (simp add: power3_eq_cube)
  have m2: "g * (2 + 1 / 1000000) \<le> d" using margin by (simp add: d_def algebra_simps)
  have win: "P - d / 2 \<le> q * d \<and> q * d < P + d / 2"
    unfolding Z_def [symmetric] using dpos P gpos m2 lo hi by (rule span_window)
  have "(k - 1 / 2) * d \<le> q * d" "q * d < (k + 1 / 2) * d"
    using win by (simp_all add: P_def algebra_simps)
  then have "k - 1 / 2 \<le> q" "q < k + 1 / 2"
    using dpos by simp_all
  then have "Math_round q = n" unfolding k_def by (rule Math_round_window)
  then show ?thesis
    by (simp add: q_def y_def S_def s_def a_def b_def d_def k_def)
qed

lemma pitch_rounded:
  fixes c g :: real
  assumes R: "rounding rnd" and g: "1 / 1000000 \<le> g" and c: "c \<le> 1000000" and cg: "g \<le> c"
  shows "1 / 1000000 \<le> rnd (c + g)" and "rnd (c + g) \<le> 4000000"
  using rounding_rel [OF R, of "c + g"] assms by simp_all

section \<open>Grid geometry: the round trip\<close>

text \<open>The rounded \<open>pixelToGrid\<close> has the bounds of the exact one, whatever \<open>rnd\<close> is.\<close>

lemma pixelToGrid_rnd_exact: "pixelToGrid_rnd (\<lambda>x. x) = pixelToGrid"
  by (intro ext) (simp add: pixelToGrid_rnd_def pixelToGrid_def)

lemma pixelToGrid_rnd_bounds:
  "1 \<le> col (pixelToGrid_rnd rnd x y w h m) \<and> 1 \<le> row (pixelToGrid_rnd rnd x y w h m)
   \<and> 1 \<le> colSpan (pixelToGrid_rnd rnd x y w h m)
   \<and> colSpan (pixelToGrid_rnd rnd x y w h m) \<le> GRID_COLUMNS
   \<and> 1 \<le> rowSpan (pixelToGrid_rnd rnd x y w h m)"
  by (auto simp: pixelToGrid_rnd_def Let_def GRID_COLUMNS_def)

text \<open>
  Claim C1, as amended. In double arithmetic, for every valid grid rectangle \<open>r\<close> whose \<open>row\<close>
  and \<open>rowSpan\<close> are at most a million, and every \<open>gridMath\<close> whose gap is at least a
  millionth of a pixel, whose cell width and row height are at most a million pixels and
  exceed the gap by at least a millionth of it, converting \<open>r\<close> to pixels with \<open>gridToPixel\<close>
  and back with \<open>pixelToGrid\<close> returns exactly \<open>r\<close>.
\<close>

theorem roundTrip_identity:
  assumes R: "rounding rnd" and v: "validGridRect r"
    and rows: "row r \<le> 1000000" "rowSpan r \<le> 1000000"
    and g: "1 / 1000000 \<le> gap m"
    and c: "cellWidth m \<le> 1000000" and h: "rowHeight m \<le> 1000000"
    and mc: "gap m * (1 + 1 / 1000000) \<le> cellWidth m"
    and mh: "gap m * (1 + 1 / 1000000) \<le> rowHeight m"
  shows "roundTrip rnd r m = r"
proof -
  have gc: "gap m \<le> cellWidth m" and gh: "gap m \<le> rowHeight m"
    using g mc mh by (simp_all add: algebra_simps)
  have cols: "1 \<le> col r" "col r \<le> 1000000" "1 \<le> colSpan r" "colSpan r \<le> 1000000"
    "1 \<le> row r" "1 \<le> rowSpan r" "col r + colSpan r \<le> GRID_COLUMNS + 1"
    using v by (simp_all add: validGridRect_def GRID_COLUMNS_def)
  have c0: "Math_round (rnd (left (gridToPixel rnd r m) / rnd (cellWidth m + gap m))) + 1 = col r"
    using start_rounded [OF R cols(1,2) pitch_rounded [OF R g c gc]] by (simp add: gridToPixel_def)
  have r0: "Math_round (rnd (top_px (gridToPixel rnd r m) / rnd (rowHeight m + gap m))) + 1 = row r"
    using start_rounded [OF R cols(5) rows(1) pitch_rounded [OF R g h gh]] by (simp add: gridToPixel_def)
  have cs: "Math_round (rnd (width (gridToPixel rnd r m) / rnd (cellWidth m + gap m))) = colSpan r"
    using span_rounded [OF R cols(3,4) g c mc] by (simp add: gridToPixel_def)
  have rs: "Math_round (rnd (height (gridToPixel rnd r m) / rnd (rowHeight m + gap m))) = rowSpan r"
    using span_rounded [OF R cols(6) rows(2) g h mh] by (simp add: gridToPixel_def)
  have "roundTrip rnd r m = \<lparr>col = col r, row = row r, colSpan = colSpan r, rowSpan = rowSpan r\<rparr>"
    using cols unfolding roundTrip_def pixelToGrid_rnd_def Let_def c0 r0 cs rs
    by (simp add: max_def)
  then show ?thesis by simp
qed

text \<open>
  The theorem at the hook's initial measurements (cell width 80, row height 60, gap 16),
  with the rounding that changes nothing.
\<close>

theorem roundTrip_identity_witness:
  "rounding (\<lambda>x. x)
   \<and> validGridRect \<lparr>col = 9, row = 3, colSpan = 2, rowSpan = 5\<rparr>
   \<and> 1 / 1000000 \<le> gap defaultGridMath
   \<and> gap defaultGridMath * (1 + 1 / 1000000) \<le> cellWidth defaultGridMath
   \<and> gap defaultGridMath * (1 + 1 / 1000000) \<le> rowHeight defaultGridMath
   \<and> roundTrip (\<lambda>x. x) \<lparr>col = 9, row = 3, colSpan = 2, rowSpan = 5\<rparr> defaultGridMath
       = \<lparr>col = 9, row = 3, colSpan = 2, rowSpan = 5\<rparr>"
proof -
  have v: "validGridRect \<lparr>col = 9, row = 3, colSpan = 2, rowSpan = 5\<rparr>"
    by (simp add: validGridRect_def GRID_COLUMNS_def)
  have rows: "row \<lparr>col = 9, row = 3, colSpan = 2, rowSpan = 5\<rparr> \<le> 1000000"
    "rowSpan \<lparr>col = 9, row = 3, colSpan = 2, rowSpan = 5\<rparr> \<le> 1000000"
    by simp_all
  have g: "1 / 1000000 \<le> gap defaultGridMath"
    "cellWidth defaultGridMath \<le> 1000000" "rowHeight defaultGridMath \<le> 1000000"
    "gap defaultGridMath * (1 + 1 / 1000000) \<le> cellWidth defaultGridMath"
    "gap defaultGridMath * (1 + 1 / 1000000) \<le> rowHeight defaultGridMath"
    by (simp_all add: defaultGridMath_def GAP_def ROW_HEIGHT_def)
  show ?thesis
    using rounding_exact v g roundTrip_identity [OF rounding_exact v rows g] by simp
qed

text \<open>
  In the container of 224 pixels a box of two columns is 32 pixels wide, 1.33 pitches of
  24 pixels, and comes back with one column, whatever the rounding.
\<close>

lemma roundTrip_narrow:
  assumes R: "rounding rnd"
  shows "roundTrip rnd \<lparr>col = 1, row = 1, colSpan = 2, rowSpan = 1\<rparr> narrowGridMath
           = \<lparr>col = 1, row = 1, colSpan = 1, rowSpan = 1\<rparr>"
proof -
  have i: "rnd 0 = 0" "rnd 16 = 16" "rnd 24 = 24" "rnd 32 = 32" "rnd 60 = 60" "rnd 76 = 76"
    using rounding_int [OF R, of 0] rounding_int [OF R, of 16] rounding_int [OF R, of 24]
      rounding_int [OF R, of 32] rounding_int [OF R, of 60] rounding_int [OF R, of 76]
    by simp_all
  have w: "Math_round (rnd (4 / 3)) = 1"
    using rounding_rel [OF R, of "4 / 3"] by (intro Math_round_window) simp_all
  have h: "Math_round (rnd (15 / 19)) = 1"
    using rounding_rel [OF R, of "15 / 19"] by (intro Math_round_window) simp_all
  have z: "Math_round 0 = 0" by (simp add: Math_round_def)
  show ?thesis
    by (simp add: roundTrip_def gridToPixel_def pixelToGrid_rnd_def narrowGridMath_def
        Let_def i w h z GRID_COLUMNS_def)
qed

text \<open>
  Claim C1 as it is written asks only for positive cell width, row height and gap. The
  narrow container has them, and the round trip of a valid box of two columns returns one
  column.
\<close>

theorem roundTrip_counterexample:
  "validGridRect \<lparr>col = 1, row = 1, colSpan = 2, rowSpan = 1\<rparr>
   \<and> 0 < cellWidth narrowGridMath \<and> 0 < rowHeight narrowGridMath \<and> 0 < gap narrowGridMath
   \<and> rounding (\<lambda>x. x)
   \<and> roundTrip (\<lambda>x. x) \<lparr>col = 1, row = 1, colSpan = 2, rowSpan = 1\<rparr> narrowGridMath
       = \<lparr>col = 1, row = 1, colSpan = 1, rowSpan = 1\<rparr>
   \<and> roundTrip (\<lambda>x. x) \<lparr>col = 1, row = 1, colSpan = 2, rowSpan = 1\<rparr> narrowGridMath
       \<noteq> \<lparr>col = 1, row = 1, colSpan = 2, rowSpan = 1\<rparr>"
  using roundTrip_narrow [OF rounding_exact] rounding_exact
  by (simp add: validGridRect_def narrowGridMath_def GRID_COLUMNS_def)

section \<open>The overlap test\<close>

text \<open>
  Claim C7. \<open>doGridPositionsOverlap\<close> is true exactly when the open-interval condition
  holds on both axes; for rectangles given by start and span the ends are start plus span;
  and two positions that only touch along an edge do not overlap.
\<close>

theorem doGridPositionsOverlap_open_intervals:
  "(doGridPositionsOverlap a b \<longleftrightarrow>
      colStart a < colEnd b \<and> colEnd a > colStart b
      \<and> rowStart a < rowEnd b \<and> rowEnd a > rowStart b)
   \<and> (doGridPositionsOverlap (positionOfSpans r) (positionOfSpans s) \<longleftrightarrow>
      col r < col s + colSpan s \<and> col r + colSpan r > col s
      \<and> row r < row s + rowSpan s \<and> row r + rowSpan r > row s)
   \<and> (colEnd a = colStart b \<longrightarrow> \<not> doGridPositionsOverlap a b)
   \<and> (rowEnd a = rowStart b \<longrightarrow> \<not> doGridPositionsOverlap a b)
   \<and> (colEnd b = colStart a \<longrightarrow> \<not> doGridPositionsOverlap a b)
   \<and> (rowEnd b = rowStart a \<longrightarrow> \<not> doGridPositionsOverlap a b)"
  by (auto simp: doGridPositionsOverlap_def positionOfSpans_def)

text \<open>
  Two boxes side by side in row 1, the first in columns 1 and 2, the second starting in
  column 3: they touch and do not overlap.
\<close>

theorem doGridPositionsOverlap_open_intervals_witness:
  "colEnd (positionOfSpans \<lparr>col = 1, row = 1, colSpan = 2, rowSpan = 1\<rparr>)
     = colStart (positionOfSpans \<lparr>col = 3, row = 1, colSpan = 3, rowSpan = 2\<rparr>)
   \<and> \<not> doGridPositionsOverlap
         (positionOfSpans \<lparr>col = 1, row = 1, colSpan = 2, rowSpan = 1\<rparr>)
         (positionOfSpans \<lparr>col = 3, row = 1, colSpan = 3, rowSpan = 2\<rparr>)"
proof -
  let ?a = "positionOfSpans \<lparr>col = 1, row = 1, colSpan = 2, rowSpan = 1\<rparr>"
  let ?b = "positionOfSpans \<lparr>col = 3, row = 1, colSpan = 3, rowSpan = 2\<rparr>"
  have touch: "colEnd ?a = colStart ?b"
    by (simp add: positionOfSpans_def)
  have "colEnd ?a = colStart ?b \<longrightarrow> \<not> doGridPositionsOverlap ?a ?b"
    using doGridPositionsOverlap_open_intervals
      [of ?a ?b "\<lparr>col = 1, row = 1, colSpan = 2, rowSpan = 1\<rparr>"
          "\<lparr>col = 3, row = 1, colSpan = 3, rowSpan = 2\<rparr>"]
    by blast
  with touch show ?thesis by blast
qed

section \<open>Snapping and clamping\<close>

text \<open>
  \<open>snapToGrid\<close> and \<open>clampToGrid\<close> of the utils module always return a rectangle with the
  Box invariants. \<open>pixelToGrid\<close> does so exactly when the column it returns is inside the
  grid: it bounds the column from below only.
\<close>

lemma snapToGrid_valid:
  assumes "cw + GRID_GAP \<noteq> 0"
  shows "validGridRect (snapToGrid x y w h cw)"
  by (simp add: snapToGrid_def validGridRect_def Let_def GRID_COLUMNS_def)

lemma clampToGrid_valid: "validGridRect (clampToGrid c r cs rs)"
  by (auto simp: clampToGrid_def validGridRect_def Let_def GRID_COLUMNS_def)

lemma pixelToGrid_valid_iff:
  assumes "cellWidth m + gap m \<noteq> 0" "rowHeight m + gap m \<noteq> 0"
  shows "validGridRect (pixelToGrid x y w h m) \<longleftrightarrow> col (pixelToGrid x y w h m) \<le> GRID_COLUMNS"
  by (auto simp: pixelToGrid_def validGridRect_def Let_def GRID_COLUMNS_def)

text \<open>
  Claim C2 says that the snap of every pixel rectangle has the Box invariants
  \<open>col \<ge> 1\<close>, \<open>row \<ge> 1\<close>, \<open>colSpan \<ge> 1\<close>, \<open>rowSpan \<ge> 1\<close> and
  \<open>col + colSpan - 1 \<le> GRID_COLUMNS\<close>. At the initial measurements, a rectangle one cell
  large whose left edge is ten pitches to the right (960 pixels) is snapped by
  \<open>pixelToGrid\<close> to column 11 with one column, outside the ten columns; \<open>snapToGrid\<close> on
  the same rectangle answers column 10.
\<close>

theorem pixelToGrid_beyond_grid:
  "pixelToGrid 960 0 80 60 defaultGridMath = \<lparr>col = 11, row = 1, colSpan = 1, rowSpan = 1\<rparr>
   \<and> \<not> validGridRect (pixelToGrid 960 0 80 60 defaultGridMath)
   \<and> snapToGrid 960 0 80 60 80 = \<lparr>col = 10, row = 1, colSpan = 1, rowSpan = 1\<rparr>"
  by (simp add: pixelToGrid_def snapToGrid_def validGridRect_def defaultGridMath_def
      Math_round_def GRID_COLUMNS_def ROW_HEIGHT_def GAP_def GRID_GAP_def ROW_HEIGHT_utils_def)

text \<open>
  The degenerate-edge policy: a start column beyond the grid becomes the last column, with
  one column of span. \<open>clampToGrid\<close> and \<open>snapToGrid\<close> apply it; \<open>pixelToGrid\<close> keeps the
  column it computed.
\<close>

lemma clampToGrid_degenerate:
  assumes "c > GRID_COLUMNS"
  shows "col (clampToGrid c r cs rs) = GRID_COLUMNS \<and> colSpan (clampToGrid c r cs rs) = 1"
  using assms by (simp add: clampToGrid_def Let_def GRID_COLUMNS_def)

lemma snapToGrid_degenerate:
  assumes "cw + GRID_GAP \<noteq> 0" and "Math_round (x / (cw + GRID_GAP)) + 1 > GRID_COLUMNS"
  shows "col (snapToGrid x y w h cw) = GRID_COLUMNS \<and> colSpan (snapToGrid x y w h cw) = 1"
  using assms(2) by (simp add: snapToGrid_def Let_def GRID_COLUMNS_def)

lemma pixelToGrid_beyond:
  assumes "cellWidth m + gap m \<noteq> 0"
    and "Math_round (x / (cellWidth m + gap m)) + 1 > GRID_COLUMNS"
  shows "col (pixelToGrid x y w h m) = Math_round (x / (cellWidth m + gap m)) + 1
         \<and> colSpan (pixelToGrid x y w h m) = 1"
  using assms(2) by (simp add: pixelToGrid_def Let_def GRID_COLUMNS_def)

text \<open>
  Claim C9 says that whenever the start column exceeds the grid width the result has
  \<open>col = GRID_COLUMNS\<close> and \<open>colSpan = 1\<close>. A rectangle of two columns dragged twenty pitches
  to the right (1920 pixels) is snapped by \<open>pixelToGrid\<close> to column 21, which it keeps;
  \<open>clampToGrid\<close> on start column 21 answers column 10.
\<close>

theorem pixelToGrid_keeps_column_beyond_grid:
  "col (pixelToGrid 1920 76 176 60 defaultGridMath) = 21
   \<and> colSpan (pixelToGrid 1920 76 176 60 defaultGridMath) = 1
   \<and> col (pixelToGrid 1920 76 176 60 defaultGridMath) \<noteq> GRID_COLUMNS
   \<and> col (clampToGrid 21 2 2 1) = GRID_COLUMNS \<and> colSpan (clampToGrid 21 2 2 1) = 1"
  by (simp add: pixelToGrid_def clampToGrid_def defaultGridMath_def
      Math_round_def GRID_COLUMNS_def ROW_HEIGHT_def GAP_def)

text \<open>
  Claim C4, as amended. \<open>pixelToGrid\<close> returns a \<open>colSpan\<close> between 1 and \<open>GRID_COLUMNS\<close> and a
  \<open>rowSpan\<close> of at least 1, and every \<open>rowSpan\<close> from 1 on is returned for some height;
  \<open>constrainToGrid\<close> returns a width between one cell and \<open>GRID_COLUMNS\<close> cells and a height
  between one cell and five cells.
\<close>

theorem span_bounds:
  assumes "cellWidth m + gap m \<noteq> 0" and "rowHeight m + gap m \<noteq> 0"
  shows "1 \<le> colSpan (pixelToGrid x y w h m)
     \<and> colSpan (pixelToGrid x y w h m) \<le> GRID_COLUMNS
     \<and> 1 \<le> rowSpan (pixelToGrid x y w h m)
     \<and> (\<forall>n\<ge>1. rowSpan (pixelToGrid x y w (of_int n * (rowHeight m + gap m)) m) = n)
     \<and> CELL_SIZE \<le> fst (constrainToGrid w h)
     \<and> fst (constrainToGrid w h) \<le> of_int GRID_COLUMNS * CELL_SIZE
     \<and> CELL_SIZE \<le> snd (constrainToGrid w h)
     \<and> snd (constrainToGrid w h) \<le> 5 * CELL_SIZE"
proof -
  have a: "1 \<le> colSpan (pixelToGrid x y w h m)"
    by (simp add: pixelToGrid_def Let_def)
  have b: "colSpan (pixelToGrid x y w h m) \<le> GRID_COLUMNS"
    by (auto simp: pixelToGrid_def Let_def GRID_COLUMNS_def)
  have c: "1 \<le> rowSpan (pixelToGrid x y w h m)"
    by (simp add: pixelToGrid_def Let_def)
  have d: "rowSpan (pixelToGrid x y w (of_int n * (rowHeight m + gap m)) m) = n" if "n \<ge> 1" for n
    using that assms(2) by (simp add: pixelToGrid_def Let_def Math_round_of_int)
  have e: "CELL_SIZE \<le> fst (constrainToGrid w h)" "CELL_SIZE \<le> snd (constrainToGrid w h)"
    by (simp_all add: constrainToGrid_def Let_def)
  have f: "fst (constrainToGrid w h) \<le> of_int GRID_COLUMNS * CELL_SIZE"
    by (simp add: constrainToGrid_def Let_def CELL_SIZE_def GRID_COLUMNS_def)
  have g: "snd (constrainToGrid w h) \<le> 5 * CELL_SIZE"
    by (simp add: constrainToGrid_def Let_def CELL_SIZE_def)
  from a b c d e f g show ?thesis by blast
qed

text \<open>
  At the initial measurements: a height of seven row pitches gives seven rows, and a
  resize to 9000 by 9000 pixels is constrained to a height of at most five cells.
\<close>

theorem span_bounds_witness:
  "cellWidth defaultGridMath + gap defaultGridMath \<noteq> 0
   \<and> rowHeight defaultGridMath + gap defaultGridMath \<noteq> 0
   \<and> rowSpan (pixelToGrid 0 0 80 (7 * (rowHeight defaultGridMath + gap defaultGridMath))
        defaultGridMath) = 7
   \<and> snd (constrainToGrid 9000 9000) \<le> 5 * CELL_SIZE"
proof -
  have nz: "cellWidth defaultGridMath + gap defaultGridMath \<noteq> 0"
    "rowHeight defaultGridMath + gap defaultGridMath \<noteq> 0"
    by (simp_all add: defaultGridMath_def GAP_def ROW_HEIGHT_def)
  have seven: "(1::int) \<le> 7" by simp
  with span_bounds [OF nz, of 0 0 80 9000]
  have "rowSpan (pixelToGrid 0 0 80 (of_int 7 * (rowHeight defaultGridMath
      + gap defaultGridMath)) defaultGridMath) = 7"
    by blast
  moreover from span_bounds [OF nz, of 0 0 9000 9000]
  have "snd (constrainToGrid 9000 9000) \<le> 5 * CELL_SIZE" by blast
  ultimately show ?thesis using nz by simp
qed

text \<open>
  Claim C4 as it is written bounds both spans by 5. A rectangle six column pitches wide and
  six row pitches high is snapped to six columns and six rows, and a resize to the full
  grid width of 800 pixels is left at ten cells.
\<close>

theorem span_bounds_counterexample:
  "colSpan (pixelToGrid 0 0 576 456 defaultGridMath) = 6
   \<and> rowSpan (pixelToGrid 0 0 576 456 defaultGridMath) = 6
   \<and> fst (constrainToGrid 800 80) = 10 * CELL_SIZE
   \<and> \<not> fst (constrainToGrid 800 80) \<le> 5 * CELL_SIZE"
  by (simp add: pixelToGrid_def constrainToGrid_def defaultGridMath_def
      Math_round_def GRID_COLUMNS_def ROW_HEIGHT_def GAP_def CELL_SIZE_def)

section \<open>Collision resolution\<close>

text \<open>
  The loop of \<open>handleBoxUpdate\<close> tries the candidate moved down by 0, 1, 2, ... rows. It
  stops at the first position that collides with no other unselected box, or with
  \<open>attempts = 100\<close>.
\<close>

lemma shiftRows_0: "shiftRows 0 p = p"
  by (simp add: shiftRows_def)

lemma shiftRows_Suc:
  "(shiftRows n p)\<lparr>rowStart := rowStart (shiftRows n p) + 1, rowEnd := rowEnd (shiftRows n p) + 1\<rparr>
     = shiftRows (Suc n) p"
  by (simp add: shiftRows_def)

lemma resolveLoop_step:
  "resolveLoop bs sel i (shiftRows n p) n =
     (if checkCollision bs sel i (shiftRows n p) \<and> n < 100
      then resolveLoop bs sel i (shiftRows (Suc n) p) (Suc n)
      else (shiftRows n p, n))"
  by (subst resolveLoop.simps) (simp add: shiftRows_Suc)

lemma resolveLoop_found:
  assumes "k \<le> 100" and "n \<le> k" and "\<not> checkCollision bs sel i (shiftRows k p)"
    and "\<And>j. n \<le> j \<Longrightarrow> j < k \<Longrightarrow> checkCollision bs sel i (shiftRows j p)"
  shows "resolveLoop bs sel i (shiftRows n p) n = (shiftRows k p, k)"
  using assms(2,4)
proof (induction "k - n" arbitrary: n)
  case 0
  then have "n = k" by simp
  with assms(3) show ?case by (subst resolveLoop_step) simp
next
  case (Suc d)
  then have lt: "n < k" by simp
  with Suc.prems have c: "checkCollision bs sel i (shiftRows n p)" by simp
  have "resolveLoop bs sel i (shiftRows (Suc n) p) (Suc n) = (shiftRows k p, k)"
    using Suc.hyps(2) lt Suc.prems(2) by (intro Suc.hyps(1)) auto
  with c lt assms(1) show ?case by (subst resolveLoop_step) simp
qed

lemma resolveLoop_exhausted:
  assumes "n \<le> 100"
    and "\<And>j. n \<le> j \<Longrightarrow> j < 100 \<Longrightarrow> checkCollision bs sel i (shiftRows j p)"
  shows "snd (resolveLoop bs sel i (shiftRows n p) n) = 100"
  using assms
proof (induction "100 - n" arbitrary: n)
  case 0
  then have "n = 100" by simp
  then show ?case by (subst resolveLoop_step) simp
next
  case (Suc d)
  then have lt: "n < 100" by simp
  with Suc.prems have c: "checkCollision bs sel i (shiftRows n p)" by simp
  have "snd (resolveLoop bs sel i (shiftRows (Suc n) p) (Suc n)) = 100"
    using Suc.hyps(2) lt Suc.prems(2) by (intro Suc.hyps(1)) auto
  with c lt show ?case by (subst resolveLoop_step) simp
qed

lemma handleBoxUpdate_found:
  assumes "k < 100" and "\<not> checkCollision bs sel i (shiftRows k p)"
    and "\<And>j. j < k \<Longrightarrow> checkCollision bs sel i (shiftRows j p)"
  shows "handleBoxUpdate bs sel i p None = Some (i, shiftRows k p, None)"
proof (cases "checkCollision bs sel i p")
  case False
  then have "k = 0" using assms(3) [of 0] by (cases k) (simp_all add: shiftRows_0)
  with False show ?thesis by (simp add: handleBoxUpdate_def shiftRows_0)
next
  case True
  have "resolveLoop bs sel i (shiftRows 0 p) 0 = (shiftRows k p, k)"
    using assms by (intro resolveLoop_found) simp_all
  then have "resolveLoop bs sel i p 0 = (shiftRows k p, k)" by (simp add: shiftRows_0)
  with True assms(1) show ?thesis by (simp add: handleBoxUpdate_def)
qed

lemma handleBoxUpdate_exhausted:
  assumes "\<And>j. j < 100 \<Longrightarrow> checkCollision bs sel i (shiftRows j p)"
  shows "handleBoxUpdate bs sel i p None =
           (case find (\<lambda>b. cbox_id b = i) bs of
              Some currentBox \<Rightarrow> Some (i, gridPosition currentBox, None)
            | None \<Rightarrow> None)"
proof -
  have c0: "checkCollision bs sel i p" using assms [of 0] by (simp add: shiftRows_0)
  have "snd (resolveLoop bs sel i (shiftRows 0 p) 0) = 100"
    using assms by (intro resolveLoop_exhausted) simp_all
  then have "snd (resolveLoop bs sel i p 0) = 100" by (simp add: shiftRows_0)
  with c0 show ?thesis
    by (cases "resolveLoop bs sel i p 0") (simp add: handleBoxUpdate_def)
qed

lemma handleBoxUpdate_free:
  "handleBoxUpdate bs sel i p (Some a) = Some (i, p, Some a)"
  by (simp add: handleBoxUpdate_def)

text \<open>
  Claim C3, as amended. For a snap to the grid (no absolute position), every candidate and
  every list of boxes: if \<open>k \<le> 99\<close> is the least number of rows by which the candidate can
  be moved down so that it overlaps no other unselected box, \<open>handleBoxUpdate\<close> reports the
  candidate moved down by \<open>k\<close> rows, its columns unchanged; if the candidate collides at
  every one of the offsets 0 to 100, it reports the grid position that the acting box has
  in the layout, as it is stored, or nothing when the box is not in the layout.
\<close>

theorem handleBoxUpdate_resolution:
  "(k < 100 \<and> \<not> checkCollision bs sel i (shiftRows k p)
      \<and> (\<forall>j<k. checkCollision bs sel i (shiftRows j p))
     \<longrightarrow> handleBoxUpdate bs sel i p None = Some (i, shiftRows k p, None)
         \<and> colStart (shiftRows k p) = colStart p \<and> colEnd (shiftRows k p) = colEnd p
         \<and> rowStart (shiftRows k p) = rowStart p + int k
         \<and> rowEnd (shiftRows k p) = rowEnd p + int k)
   \<and> ((\<forall>j\<le>100. checkCollision bs sel i (shiftRows j p))
     \<longrightarrow> handleBoxUpdate bs sel i p None =
           (case find (\<lambda>b. cbox_id b = i) bs of
              Some currentBox \<Rightarrow> Some (i, gridPosition currentBox, None)
            | None \<Rightarrow> None))"
proof (intro conjI impI)
  assume "\<forall>j\<le>100. checkCollision bs sel i (shiftRows j p)"
  then show "handleBoxUpdate bs sel i p None =
           (case find (\<lambda>b. cbox_id b = i) bs of
              Some currentBox \<Rightarrow> Some (i, gridPosition currentBox, None)
            | None \<Rightarrow> None)"
    by (intro handleBoxUpdate_exhausted) simp
next
  assume "k < 100 \<and> \<not> checkCollision bs sel i (shiftRows k p)
      \<and> (\<forall>j<k. checkCollision bs sel i (shiftRows j p))"
  then show "handleBoxUpdate bs sel i p None = Some (i, shiftRows k p, None)"
    by (intro handleBoxUpdate_found) simp_all
qed (simp_all add: shiftRows_def)

text \<open>
  A blocker in rows 1 and 2 moves the candidate from row 1 to row 3; behind a blocker
  that is 299 rows high the stored position of the acting box is reported.
\<close>

theorem handleBoxUpdate_resolution_witness:
  "handleBoxUpdate [blockerBox 3] {} ''a'' \<lparr>colStart = 2, colEnd = 4, rowStart = 1, rowEnd = 2\<rparr> None
     = Some (''a'', \<lparr>colStart = 2, colEnd = 4, rowStart = 3, rowEnd = 4\<rparr>, None)
   \<and> handleBoxUpdate [draggedBox, blockerBox 300] {} ''a''
        \<lparr>colStart = 2, colEnd = 4, rowStart = 1, rowEnd = 2\<rparr> None
     = Some (''a'', \<lparr>colStart = 2, colEnd = 4, rowStart = 3, rowEnd = 4\<rparr>, None)"
proof -
  let ?p = "\<lparr>colStart = 2, colEnd = 4, rowStart = 1, rowEnd = 2\<rparr>"
  have free: "\<not> checkCollision [blockerBox 3] {} ''a'' (shiftRows 2 ?p)"
    by (simp add: checkCollision_def blockerBox_def doGridPositionsOverlap_def shiftRows_def)
  have taken: "\<forall>j<2. checkCollision [blockerBox 3] {} ''a'' (shiftRows j ?p)"
    by (simp add: checkCollision_def blockerBox_def doGridPositionsOverlap_def shiftRows_def)
  have all: "\<forall>j\<le>100. checkCollision [draggedBox, blockerBox 300] {} ''a'' (shiftRows j ?p)"
    by (simp add: checkCollision_def blockerBox_def draggedBox_def doGridPositionsOverlap_def
        shiftRows_def)
  have "handleBoxUpdate [blockerBox 3] {} ''a'' ?p None = Some (''a'', shiftRows 2 ?p, None)"
    using handleBoxUpdate_resolution [of 2 "[blockerBox 3]" "{}" "''a''" ?p] free taken
    by simp
  moreover have "handleBoxUpdate [draggedBox, blockerBox 300] {} ''a'' ?p None
      = Some (''a'', gridPosition draggedBox, None)"
    using handleBoxUpdate_resolution [of 0 "[draggedBox, blockerBox 300]" "{}" "''a''" ?p] all
    by (simp add: draggedBox_def)
  ultimately show ?thesis by (simp add: shiftRows_def draggedBox_def)
qed

text \<open>
  Claim C3 as it is written ends: in no outcome are two grid-anchored boxes left
  overlapping. The stack of anchored boxes has no overlap. The free box was dragged onto
  it, so that its stored position is rows 3, columns 2 and 3; on deselect that position is
  the candidate, every offset from 0 to 100 collides with the stack, and the answer is the
  stored position itself, which overlaps a box of the stack.
\<close>

theorem handleBoxUpdate_counterexample:
  "noTwoOverlap stackOfBoxes
   \<and> handleBoxUpdate (draggedBox # stackOfBoxes) {''a''} ''a''
      \<lparr>colStart = 2, colEnd = 4, rowStart = 3, rowEnd = 4\<rparr> None
     = Some (''a'', \<lparr>colStart = 2, colEnd = 4, rowStart = 3, rowEnd = 4\<rparr>, None)
   \<and> checkCollision (draggedBox # stackOfBoxes) {''a''} ''a''
        \<lparr>colStart = 2, colEnd = 4, rowStart = 3, rowEnd = 4\<rparr>"
  by code_simp

section \<open>Adding a box\<close>

lemma fold_max_Max: "fold max xs (x::int) = Max (set (x # xs))"
  by (simp only: Max.set_eq_fold)

lemma handleAddBox_row:
  "boxes (handleAddBox st) = boxes st @
     [\<lparr>col = 1, row = (if boxes st = [] then 0 else maxOccupiedRow (boxes st)) + 1,
       colSpan = 2, rowSpan = 1, box_id = String_nat (nextId st)\<rparr>]"
proof (cases "boxes st")
  case Nil
  then show ?thesis by (simp add: handleAddBox_def)
next
  case (Cons b bs)
  have "fold max (map (\<lambda>b. row b + rowSpan b - 1) bs) (row b + rowSpan b - 1)
      = maxOccupiedRow (b # bs)"
    unfolding maxOccupiedRow_def by (simp only: fold_max_Max) simp
  with Cons show ?thesis by (simp add: handleAddBox_def)
qed

text \<open>
  Claim C8. \<open>handleAddBox\<close> appends one box with \<open>col = 1\<close>, \<open>colSpan = 2\<close>, \<open>rowSpan = 1\<close> and
  \<open>row\<close> one more than the maximum occupied row; on a layout whose maximum occupied row is
  3 that is row 4, on an empty layout row 1. The boxes that were there are unchanged, and
  so is the selection.
\<close>

theorem handleAddBox_appends:
  "boxes (handleAddBox st) = boxes st @
     [\<lparr>col = 1, row = (if boxes st = [] then 0 else maxOccupiedRow (boxes st)) + 1,
       colSpan = 2, rowSpan = 1, box_id = String_nat (nextId st)\<rparr>]
   \<and> (boxes st \<noteq> [] \<and> maxOccupiedRow (boxes st) = 3 \<longrightarrow> row (last (boxes (handleAddBox st))) = 4)
   \<and> (boxes st = [] \<longrightarrow> row (last (boxes (handleAddBox st))) = 1)
   \<and> (\<forall>n < length (boxes st). boxes (handleAddBox st) ! n = boxes st ! n)
   \<and> length (boxes (handleAddBox st)) = length (boxes st) + 1
   \<and> selectedIds (handleAddBox st) = selectedIds st"
proof -
  note r = handleAddBox_row [of st]
  have sel: "selectedIds (handleAddBox st) = selectedIds st"
    by (simp add: handleAddBox_def Let_def)
  have nth: "\<forall>n < length (boxes st). boxes (handleAddBox st) ! n = boxes st ! n"
    unfolding r by (simp add: nth_append)
  show ?thesis
    using nth sel unfolding r by simp
qed

text \<open>The initial layout occupies rows 1 to 3; the box added to it has id 5 and row 4.\<close>

theorem handleAddBox_appends_witness:
  "boxes initialPage \<noteq> [] \<and> maxOccupiedRow (boxes initialPage) = 3
   \<and> last (boxes (handleAddBox initialPage))
       = \<lparr>col = 1, row = 4, colSpan = 2, rowSpan = 1, box_id = ''5''\<rparr>
   \<and> boxes (handleAddBox \<lparr>boxes = [], selectedIds = {}, nextId = 1\<rparr>)
       = [\<lparr>col = 1, row = 1, colSpan = 2, rowSpan = 1, box_id = ''1''\<rparr>]"
proof -
  have m: "maxOccupiedRow (boxes initialPage) = 3"
    by (simp add: maxOccupiedRow_def initialPage_def initialBoxes_def)
  have ne: "boxes initialPage \<noteq> []"
    by (simp add: initialPage_def initialBoxes_def)
  have id5: "String_nat (nextId initialPage) = ''5''"
    by (simp add: initialPage_def String_nat.simps)
  have id1: "String_nat 1 = ''1''"
    by (simp add: String_nat.simps)
  from handleAddBox_appends [of initialPage] m ne id5
  have a: "last (boxes (handleAddBox initialPage))
       = \<lparr>col = 1, row = 4, colSpan = 2, rowSpan = 1, box_id = ''5''\<rparr>"
    by simp
  from handleAddBox_appends [of "\<lparr>boxes = [], selectedIds = {}, nextId = 1\<rparr>"] id1
  have b: "boxes (handleAddBox \<lparr>boxes = [], selectedIds = {}, nextId = 1\<rparr>)
       = [\<lparr>col = 1, row = 1, colSpan = 2, rowSpan = 1, box_id = ''1''\<rparr>]"
    by simp
  from m ne a b show ?thesis by blast
qed

section \<open>The history\<close>

lemma saveToHistory_index:
  "historyIndex (saveToHistory b s st) = int (length (history (saveToHistory b s st))) - 1"
  by (simp add: saveToHistory_def Let_def)

lemma saveToHistory_history:
  assumes "- 1 \<le> historyIndex st"
  shows "history (saveToHistory b s st) =
           take (nat (historyIndex st + 1)) (history st)
           @ [\<lparr>snap_boxes = b, snap_selectedBoxIds = s\<rparr>]"
  using assms by (simp add: saveToHistory_def Let_def js_slice0_def)

lemma handleRedo_after_save:
  "handleRedo (saveToHistory b s st) = Inr (saveToHistory b s st)"
  using saveToHistory_index [of b s st] by (simp add: handleRedo_def)

lemma handleUndo_at_start:
  assumes "historyIndex st \<le> 0"
  shows "handleUndo st = Inr st"
  using assms by (simp add: handleUndo_def)

lemma handleRedo_at_end:
  assumes "historyIndex st \<ge> int (length (history st)) - 1"
  shows "handleRedo st = Inr st"
  using assms by (simp add: handleRedo_def)

lemma undoRedo_restores:
  assumes "0 < historyIndex st" and "historyIndex st < int (length (history st))"
  shows "undoRedo st =
           Inr (st\<lparr>cur_boxes := snap_boxes (history st ! nat (historyIndex st)),
                   cur_selectedBoxIds := snap_selectedBoxIds (history st ! nat (historyIndex st))\<rparr>)"
  using assms by (simp add: undoRedo_def handleUndo_def handleRedo_def js_index_def)

text \<open>
  With the cursor inside the history, as \<open>saveToHistory\<close> leaves it, neither handler reads
  an entry that is not there.
\<close>

lemma handleUndo_no_error:
  assumes "historyIndex st \<le> int (length (history st))"
  shows "\<exists>st'. handleUndo st = Inr st'"
  using assms by (simp add: handleUndo_def js_index_def)

lemma handleRedo_no_error:
  assumes "- 1 \<le> historyIndex st"
  shows "\<exists>st'. handleRedo st = Inr st'"
  using assms by (simp add: handleRedo_def js_index_def)

lemma redoTimes_after_save:
  "redoTimes n (saveToHistory b s st) = Inr (saveToHistory b s st)"
  by (induction n) (simp_all add: handleRedo_after_save)

text \<open>
  Claim C6, as amended. After \<open>saveToHistory\<close>, whatever came before it, any number of redos
  leaves the state as it is: the entries past the cursor were dropped and the new snapshot
  is the last. An undo that moves the cursor (the cursor is above 0 and inside the history),
  followed by a redo, restores the snapshot at the cursor, which is the state before the
  undo when that state was the committed one. An undo at the first entry and a redo at the
  last are no-ops, not errors.
\<close>

theorem history_linear:
  "redoTimes n (saveToHistory b s st) = Inr (saveToHistory b s st)
   \<and> (- 1 \<le> historyIndex st \<longrightarrow>
        history (saveToHistory b s st) =
          take (nat (historyIndex st + 1)) (history st)
          @ [\<lparr>snap_boxes = b, snap_selectedBoxIds = s\<rparr>])
   \<and> (0 < historyIndex st \<and> historyIndex st < int (length (history st)) \<longrightarrow>
        undoRedo st =
          Inr (st\<lparr>cur_boxes := snap_boxes (history st ! nat (historyIndex st)),
                  cur_selectedBoxIds :=
                    snap_selectedBoxIds (history st ! nat (historyIndex st))\<rparr>))
   \<and> (0 < historyIndex st \<and> historyIndex st < int (length (history st))
        \<and> cur_boxes st = snap_boxes (history st ! nat (historyIndex st))
        \<and> cur_selectedBoxIds st = snap_selectedBoxIds (history st ! nat (historyIndex st))
        \<longrightarrow> undoRedo st = Inr st)
   \<and> (historyIndex st \<le> 0 \<longrightarrow> handleUndo st = Inr st)
   \<and> (historyIndex st \<ge> int (length (history st)) - 1 \<longrightarrow> handleRedo st = Inr st)"
  using redoTimes_after_save [of n b s st] saveToHistory_history [of st b s]
    undoRedo_restores [of st] handleUndo_at_start [of st] handleRedo_at_end [of st]
  by simp

text \<open>
  Three commits, two undos back to the first, a new commit: the history has two entries
  and two redos change nothing.
\<close>

lemma threeSnapshots_eq:
  "threeSnapshots =
     \<lparr>cur_boxes = [], cur_selectedBoxIds = {},
      history = [\<lparr>snap_boxes = initialBoxes, snap_selectedBoxIds = {}\<rparr>,
                 \<lparr>snap_boxes = take 2 initialBoxes, snap_selectedBoxIds = {}\<rparr>,
                 \<lparr>snap_boxes = [], snap_selectedBoxIds = {}\<rparr>],
      historyIndex = 2\<rparr>"
  by (simp add: threeSnapshots_def saveToHistory_def emptyHome_def js_slice0_def Let_def)

theorem history_linear_witness:
  "0 < historyIndex threeSnapshots
   \<and> historyIndex threeSnapshots < int (length (history threeSnapshots))
   \<and> undoRedo threeSnapshots = Inr threeSnapshots
   \<and> undoTimes 2 threeSnapshots
       = Inr (threeSnapshots\<lparr>cur_boxes := initialBoxes, historyIndex := 0\<rparr>)
   \<and> history (saveToHistory (take 1 initialBoxes) {}
         (threeSnapshots\<lparr>cur_boxes := initialBoxes, historyIndex := 0\<rparr>))
       = [\<lparr>snap_boxes = initialBoxes, snap_selectedBoxIds = {}\<rparr>,
          \<lparr>snap_boxes = take 1 initialBoxes, snap_selectedBoxIds = {}\<rparr>]
   \<and> redoTimes 2 (saveToHistory (take 1 initialBoxes) {}
         (threeSnapshots\<lparr>cur_boxes := initialBoxes, historyIndex := 0\<rparr>))
       = Inr (saveToHistory (take 1 initialBoxes) {}
         (threeSnapshots\<lparr>cur_boxes := initialBoxes, historyIndex := 0\<rparr>))
   \<and> handleUndo (threeSnapshots\<lparr>cur_boxes := initialBoxes, historyIndex := 0\<rparr>)
       = Inr (threeSnapshots\<lparr>cur_boxes := initialBoxes, historyIndex := 0\<rparr>)
   \<and> handleRedo threeSnapshots = Inr threeSnapshots"
proof -
  let ?rewound = "threeSnapshots\<lparr>cur_boxes := initialBoxes, historyIndex := 0\<rparr>"
  have idx: "0 < historyIndex threeSnapshots"
    "historyIndex threeSnapshots < int (length (history threeSnapshots))"
    "historyIndex threeSnapshots \<ge> int (length (history threeSnapshots)) - 1"
    by (simp_all add: threeSnapshots_eq)
  have cur: "cur_boxes threeSnapshots
      = snap_boxes (history threeSnapshots ! nat (historyIndex threeSnapshots))"
    "cur_selectedBoxIds threeSnapshots
      = snap_selectedBoxIds (history threeSnapshots ! nat (historyIndex threeSnapshots))"
    by (simp_all add: threeSnapshots_eq)
  have rew: "- 1 \<le> historyIndex ?rewound" "historyIndex ?rewound \<le> 0"
    by simp_all
  have u2: "undoTimes 2 threeSnapshots = Inr ?rewound"
    by (simp add: threeSnapshots_eq numeral_2_eq_2 handleUndo_def js_index_def)
  note a = history_linear [of 2 "[]" "{}" threeSnapshots]
  note b = history_linear [of 2 "take 1 initialBoxes" "{}" ?rewound]
  from a idx cur have "undoRedo threeSnapshots = Inr threeSnapshots" by blast
  moreover from a idx have "handleRedo threeSnapshots = Inr threeSnapshots" by blast
  moreover from b rew have "handleUndo ?rewound = Inr ?rewound" by blast
  moreover from b have "redoTimes 2 (saveToHistory (take 1 initialBoxes) {} ?rewound)
       = Inr (saveToHistory (take 1 initialBoxes) {} ?rewound)" by blast
  moreover from b rew have "history (saveToHistory (take 1 initialBoxes) {} ?rewound)
       = take (nat (historyIndex ?rewound + 1)) (history ?rewound)
          @ [\<lparr>snap_boxes = take 1 initialBoxes, snap_selectedBoxIds = {}\<rparr>]" by blast
  then have "history (saveToHistory (take 1 initialBoxes) {} ?rewound)
       = [\<lparr>snap_boxes = initialBoxes, snap_selectedBoxIds = {}\<rparr>,
          \<lparr>snap_boxes = take 1 initialBoxes, snap_selectedBoxIds = {}\<rparr>]"
    by (simp add: threeSnapshots_eq)
  ultimately show ?thesis using idx u2 by blast
qed

text \<open>
  Claim C6 as it is written has every undo followed by a redo return to the same layout.
  After two commits and one undo the cursor is on the first entry and the layout is the
  committed one; a further undo does nothing, and the redo after it moves on to the second
  snapshot.
\<close>

theorem history_linear_counterexample:
  "handleUndo
     (saveToHistory (take 2 initialBoxes) {} (saveToHistory initialBoxes {} emptyHome)
        \<lparr>cur_boxes := take 2 initialBoxes\<rparr>)
     = Inr oneUndone
   \<and> cur_boxes oneUndone = snap_boxes (history oneUndone ! nat (historyIndex oneUndone))
   \<and> undoRedo oneUndone = Inr (oneUndone\<lparr>cur_boxes := take 2 initialBoxes, historyIndex := 1\<rparr>)
   \<and> undoRedo oneUndone \<noteq> Inr oneUndone
   \<and> cur_boxes (oneUndone\<lparr>cur_boxes := take 2 initialBoxes, historyIndex := 1\<rparr>)
       \<noteq> cur_boxes oneUndone"
  by (simp add: oneUndone_def saveToHistory_def emptyHome_def js_slice0_def Let_def
      handleUndo_def handleRedo_def undoRedo_def js_index_def initialBoxes_def)

section \<open>Import\<close>

text \<open>
  Claim C5, as amended. In the page whose export is a bare array: importing a payload that
  is itself an array replaces the whole layout with that array and clears the selection;
  importing text that is not JSON shows an alert and leaves the state unchanged; a payload
  that neither is an array nor contains a \<open>boxes\<close> array leaves the state unchanged and
  shows no alert, and so does the absence of a file.
\<close>

theorem handleImport_cases:
  "handleImport (FileText (Some (JArray imported))) st
     = (st\<lparr>boxes := imported, selectedIds := {}\<rparr>, None)
   \<and> handleImport (FileText None) st = (st, Some ''Invalid JSON file'')
   \<and> ((\<forall>imported. v \<noteq> JArray imported) \<and> \<not> hasBoxesArray v
        \<longrightarrow> handleImport (FileText (Some v)) st = (st, None))
   \<and> handleImport NoFile st = (st, None)"
  by (cases v) simp_all

text \<open>The scenario's box imported as a bare array, and an object with a version only.\<close>

theorem handleImport_cases_witness:
  "(\<forall>imported. JObject [(''version'', JString ''2.0'')] \<noteq> JArray imported)
   \<and> \<not> hasBoxesArray (JObject [(''version'', JString ''2.0'')])
   \<and> handleImport (FileText (Some (JObject [(''version'', JString ''2.0'')]))) jsonPage
       = (jsonPage, None)
   \<and> handleImport (FileText (Some (JArray [importedBox]))) jsonPage
       = (\<lparr>boxes = [importedBox], selectedIds = {}, nextId = 5\<rparr>, None)"
proof -
  have s: "\<forall>imported. JObject [(''version'', JString ''2.0'')] \<noteq> JArray imported"
    "\<not> hasBoxesArray (JObject [(''version'', JString ''2.0'')])"
    by (simp_all add: hasBoxesArray_def)
  note t = handleImport_cases [of "[importedBox]" jsonPage "JObject [(''version'', JString ''2.0'')]"]
  from t s have "handleImport (FileText (Some (JObject [(''version'', JString ''2.0'')]))) jsonPage
       = (jsonPage, None)" by blast
  moreover from t have "handleImport (FileText (Some (JArray [importedBox]))) jsonPage
       = (jsonPage\<lparr>boxes := [importedBox], selectedIds := {}\<rparr>, None)" by blast
  ultimately show ?thesis using s by (simp add: jsonPage_def)
qed

text \<open>
  Claim C5 as it is written has a payload with a missing or invalid array reported as an
  error. The object \<open>{"version": "2.0"}\<close> and the number 5 are imported without an alert.
\<close>

theorem handleImport_counterexample:
  "\<not> hasBoxesArray (JObject [(''version'', JString ''2.0'')])
   \<and> handleImport (FileText (Some (JObject [(''version'', JString ''2.0'')]))) jsonPage
     = (jsonPage, None)
   \<and> snd (handleImport (FileText (Some (JNumber 5))) jsonPage) = None"
  by (simp add: hasBoxesArray_def)

text \<open>
  This page does not read the object form: \<open>{"boxes": [box]}\<close> leaves it as it is. The
  page with the history reads that form and not the bare array.
\<close>

lemma handleImport_boxes_object:
  "hasBoxesArray (JObject [(''boxes'', JArray [importedBox])])
   \<and> handleImport (FileText (Some (JObject [(''boxes'', JArray [importedBox])]))) jsonPage
     = (jsonPage, None)"
  by (simp add: hasBoxesArray_def)

section \<open>The end of a drag\<close>

text \<open>
  \<open>handleDragStop\<close> keeps the number of boxes, their ids, the selection and the id counter,
  and returns every box with another id as it is.
\<close>

lemma handleDragStop_others:
  "length (boxes (handleDragStop m i x y st)) = length (boxes st)
   \<and> selectedIds (handleDragStop m i x y st) = selectedIds st
   \<and> nextId (handleDragStop m i x y st) = nextId st
   \<and> (\<forall>n < length (boxes st).
         box_id (boxes (handleDragStop m i x y st) ! n) = box_id (boxes st ! n)
       \<and> (box_id (boxes st ! n) \<noteq> i \<longrightarrow> boxes (handleDragStop m i x y st) ! n = boxes st ! n))"
  by (simp add: handleDragStop_def dragBox_def Let_def split: option.splits)

text \<open>
  Claim C10 says that a drag leaves \<open>colSpan\<close> unchanged except when it is reduced so that
  \<open>col + colSpan \<le> GRID_COLUMNS + 1\<close>. At the initial measurements (\<open>rowHeight = 60\<close>,
  \<open>gap = 16\<close>, \<open>cellWidth = 80\<close>) the first box of the initial layout, two columns wide,
  dragged ten pitches to the right, ends in column 11 with one column: its span is reduced
  and 11 + 1 still exceeds \<open>GRID_COLUMNS + 1\<close>.
\<close>

theorem handleDragStop_beyond_grid:
  "rowHeight defaultGridMath = 60 \<and> gap defaultGridMath = 16
   \<and> gap defaultGridMath \<le> cellWidth defaultGridMath
   \<and> boxes initialPage ! 0 = \<lparr>col = 1, row = 1, colSpan = 2, rowSpan = 1, box_id = ''1''\<rparr>
   \<and> boxes (handleDragStop defaultGridMath ''1'' 960 0 initialPage) ! 0
       = \<lparr>col = 11, row = 1, colSpan = 1, rowSpan = 1, box_id = ''1''\<rparr>
   \<and> \<not> (11::int) + 1 \<le> GRID_COLUMNS + 1"
  by (simp add: handleDragStop_def dragBox_def pixelToGrid_def initialPage_def initialBoxes_def
      defaultGridMath_def Math_round_def GRID_COLUMNS_def ROW_HEIGHT_def GAP_def)

end
